theory Spec2Isabelle
  imports Complex_Main "HOL-Library.Multiset" "HOL-Library.AList"
begin

section \<open>Values of the host language\<close>

subsection \<open>Strings\<close>

text \<open>
  Cell text, the period field and the status line are strings. A character stands for one
  code unit in the range U+0000..U+00FF. \<open>trim\<close> removes the white space and line
  terminators of the language from both ends (in this range: TAB, LF, VT, FF, CR, SPACE and
  NBSP); \<open>toLowerCase\<close> maps A..Z and the upper-case letters U+00C0..U+00DE (U+00D7 is the
  multiplication sign) to their lower-case forms.
\<close>

definition isWhiteSpace :: "char \<Rightarrow> bool" where
  "isWhiteSpace c =
     (c \<in> set [CHR 0x09, CHR 0x0A, CHR 0x0B, CHR 0x0C, CHR 0x0D, CHR 0x20, CHR 0xA0])"

definition trim :: "string \<Rightarrow> string" where
  "trim s = rev (dropWhile isWhiteSpace (rev (dropWhile isWhiteSpace s)))"

definition upperCaseLetters :: string where
  "upperCaseLetters =
     ''ABCDEFGHIJKLMNOPQRSTUVWXYZ'' @
     [CHR 0xC0, CHR 0xC1, CHR 0xC2, CHR 0xC3, CHR 0xC4, CHR 0xC5, CHR 0xC6, CHR 0xC7,
      CHR 0xC8, CHR 0xC9, CHR 0xCA, CHR 0xCB, CHR 0xCC, CHR 0xCD, CHR 0xCE, CHR 0xCF,
      CHR 0xD0, CHR 0xD1, CHR 0xD2, CHR 0xD3, CHR 0xD4, CHR 0xD5, CHR 0xD6, CHR 0xD8,
      CHR 0xD9, CHR 0xDA, CHR 0xDB, CHR 0xDC, CHR 0xDD, CHR 0xDE]"

definition lowerCaseLetters :: string where
  "lowerCaseLetters =
     ''abcdefghijklmnopqrstuvwxyz'' @
     [CHR 0xE0, CHR 0xE1, CHR 0xE2, CHR 0xE3, CHR 0xE4, CHR 0xE5, CHR 0xE6, CHR 0xE7,
      CHR 0xE8, CHR 0xE9, CHR 0xEA, CHR 0xEB, CHR 0xEC, CHR 0xED, CHR 0xEE, CHR 0xEF,
      CHR 0xF0, CHR 0xF1, CHR 0xF2, CHR 0xF3, CHR 0xF4, CHR 0xF5, CHR 0xF6, CHR 0xF8,
      CHR 0xF9, CHR 0xFA, CHR 0xFB, CHR 0xFC, CHR 0xFD, CHR 0xFE]"

definition lowerChar :: "char \<Rightarrow> char" where
  "lowerChar c =
     (case map_of (zip upperCaseLetters lowerCaseLetters) c of Some l \<Rightarrow> l | None \<Rightarrow> c)"

definition toLowerCase :: "string \<Rightarrow> string" where
  "toLowerCase s = map lowerChar s"

subsection \<open>Numbers\<close>

text \<open>
  A number of the language is a binary64 floating-point value: a finite value (held as the
  real it denotes), one of the two infinities, or NaN. The sign of zero is not kept: the
  handler never branches on it (\<open>-0 <= 0\<close> holds and \<open>-0\<close> is falsy, as for \<open>0\<close>).
  Every arithmetic result is rounded to the nearest representable value, ties to the even
  significand (53 bits, exponents of the unit in the last place from \<open>-1074\<close>), and a
  rounded magnitude of \<open>2 ^ 1024\<close> or more is an infinity.
\<close>

datatype number = Finite real | PosInfinity | NegInfinity | NaN

function bitLength :: "int \<Rightarrow> nat" where
  "bitLength n = (if n \<le> 0 then 0 else Suc (bitLength (n div 2)))"
  by pat_completeness auto
termination
  by (relation "measure nat") auto

declare bitLength.simps [simp del]

definition pow2 :: "int \<Rightarrow> real" where
  "pow2 k = (if 0 \<le> k then 2 ^ nat k else 1 / 2 ^ nat (- k))"

text \<open>\<open>floorLog2 q\<close> is the integer \<open>e\<close> with \<open>2 ^ e \<le> q < 2 ^ (e + 1)\<close>, for \<open>0 < q\<close>.\<close>

definition floorLog2 :: "real \<Rightarrow> int" where
  "floorLog2 q = (if 1 \<le> q then int (bitLength \<lfloor>q\<rfloor>) - 1
                  else - int (bitLength (\<lceil>1 / q\<rceil> - 1)))"

definition roundHalfEven :: "real \<Rightarrow> int" where
  "roundHalfEven x =
     (let f = \<lfloor>x\<rfloor>; d = x - of_int f in
      if d < 1 / 2 then f else if 1 / 2 < d then f + 1 else if even f then f else f + 1)"

definition roundDouble :: "real \<Rightarrow> number" where
  "roundDouble q =
     (if q = 0 then Finite 0
      else let e = floorLog2 \<bar>q\<bar>;
               p = max (e - 52) (- 1074);
               r = of_int (roundHalfEven (q / pow2 p)) * pow2 p
           in if 2 ^ 1024 \<le> \<bar>r\<bar> then (if 0 < q then PosInfinity else NegInfinity)
              else Finite r)"

fun numAdd :: "number \<Rightarrow> number \<Rightarrow> number" where
  "numAdd NaN y = NaN"
| "numAdd x NaN = NaN"
| "numAdd PosInfinity NegInfinity = NaN"
| "numAdd NegInfinity PosInfinity = NaN"
| "numAdd PosInfinity y = PosInfinity"
| "numAdd x PosInfinity = PosInfinity"
| "numAdd NegInfinity y = NegInfinity"
| "numAdd x NegInfinity = NegInfinity"
| "numAdd (Finite a) (Finite b) = roundDouble (a + b)"

fun numNeg :: "number \<Rightarrow> number" where
  "numNeg (Finite a) = Finite (- a)"
| "numNeg PosInfinity = NegInfinity"
| "numNeg NegInfinity = PosInfinity"
| "numNeg NaN = NaN"

definition numSub :: "number \<Rightarrow> number \<Rightarrow> number" where
  "numSub x y = numAdd x (numNeg y)"

fun numDiv :: "number \<Rightarrow> number \<Rightarrow> number" where
  "numDiv NaN y = NaN"
| "numDiv x NaN = NaN"
| "numDiv (Finite a) (Finite b) =
     (if b = 0 then (if a = 0 then NaN else if 0 < a then PosInfinity else NegInfinity)
      else roundDouble (a / b))"
| "numDiv (Finite a) y = Finite 0"
| "numDiv PosInfinity (Finite b) = (if 0 \<le> b then PosInfinity else NegInfinity)"
| "numDiv NegInfinity (Finite b) = (if 0 \<le> b then NegInfinity else PosInfinity)"
| "numDiv x y = NaN"

text \<open>The comparisons \<open><=\<close> and \<open><\<close>: false whenever an operand is NaN.\<close>

fun numLe :: "number \<Rightarrow> number \<Rightarrow> bool" where
  "numLe NaN y = False"
| "numLe x NaN = False"
| "numLe NegInfinity y = True"
| "numLe x PosInfinity = True"
| "numLe PosInfinity y = False"
| "numLe x NegInfinity = False"
| "numLe (Finite a) (Finite b) = (a \<le> b)"

fun numLt :: "number \<Rightarrow> number \<Rightarrow> bool" where
  "numLt NaN y = False"
| "numLt x NaN = False"
| "numLt PosInfinity y = False"
| "numLt x NegInfinity = False"
| "numLt NegInfinity y = True"
| "numLt x PosInfinity = True"
| "numLt (Finite a) (Finite b) = (a < b)"

subsection \<open>Cell values\<close>

text \<open>
  A cell of a two-dimensional \<open>values\<close> array. The type parameter is the payload of a
  numeric cell: values read from the document are finite (\<open>real cell\<close>, the document format
  has no infinity and no NaN), values handed to the document are results of the
  handler's arithmetic (\<open>number cell\<close>).
\<close>

datatype 'n cell = Undefined | Null | Str string | Num 'n | Bool bool

type_synonym row = "real cell list"

text \<open>Indexing an array: \<open>undefined\<close> beyond its end.\<close>

definition cellAt :: "'n cell list \<Rightarrow> nat \<Rightarrow> 'n cell" where
  "cellAt r i = (if i < length r then r ! i else Undefined)"

fun truthy :: "real cell \<Rightarrow> bool" where
  "truthy Undefined = False"
| "truthy Null = False"
| "truthy (Str s) = (s \<noteq> [])"
| "truthy (Num x) = (x \<noteq> 0)"
| "truthy (Bool b) = b"

text \<open>
  \<open>String(v)\<close>. The decimal rendering of a number is the language's own and is a
  parameter \<open>numberToString\<close> of the model.
\<close>

fun jsString :: "(number \<Rightarrow> string) \<Rightarrow> real cell \<Rightarrow> string" where
  "jsString numberToString Undefined = ''undefined''"
| "jsString numberToString Null = ''null''"
| "jsString numberToString (Str s) = s"
| "jsString numberToString (Num x) = numberToString (Finite x)"
| "jsString numberToString (Bool b) = (if b then ''true'' else ''false'')"

section \<open>The task pane and the host document\<close>

text \<open>The status line of the task pane: its text and its colour.\<close>

record statusElement =
  innerText :: string
  color :: string

text \<open>
  A worksheet: its name, its tables (name and data-body values), and what has been set
  on its ranges, by range address: cell values, number formats, bold font, auto-fitted
  columns.
\<close>

record worksheet =
  wsName :: string
  wsTables :: "(string \<times> row list) list"
  wsValues :: "(string \<times> number cell list list) list"
  wsNumberFormat :: "(string \<times> string) list"
  wsBold :: "string list"
  wsAutofit :: "string list"

record workbook =
  worksheets :: "worksheet list"
  activeSheet :: string

text \<open>An error raised by the host integration layer (\<open>OfficeExtension.Error\<close>).\<close>

record officeError =
  message :: string
  errorLocation :: string

text \<open>The requests that a synchronisation sends to the host document.\<close>

datatype request =
    LoadTableValues string string
  | LoadSheetName string
  | DeleteSheet string
  | AddSheet string
  | SetValues string string
  | SetNumberFormat string string
  | SetBold string string
  | AutofitColumns string string
  | Activate string

text \<open>
  What the handler reads and changes: the period text field, the status line, the
  workbook, and the requests sent to the host so far.
\<close>

record world =
  periodInput :: string
  status :: statusElement
  excel :: workbook
  requests :: "request list"

subsection \<open>Host operations\<close>

text \<open>
  The object model of the host is not part of the repository. Worksheet names are unique
  in a workbook; a sheet is found by its name, deleting removes it, adding appends an
  empty sheet and fails when the name is taken or is not a legal sheet name (empty, longer
  than 31 characters, containing one of \<open>: \ / ? * [ ]\<close>, or beginning or ending with an
  apostrophe). Names are compared as they are written (the host itself ignores case), and
  a deletion always succeeds. The wording of the host's error messages is the host's.
\<close>

definition findSheet :: "string \<Rightarrow> workbook \<Rightarrow> worksheet option" where
  "findSheet n wb = find (\<lambda>s. wsName s = n) (worksheets wb)"

definition itemNotFound :: "string \<Rightarrow> officeError" where
  "itemNotFound loc =
     \<lparr>message = ''The requested resource does not exist.'', errorLocation = loc\<rparr>"

definition loadTableValues :: "string \<Rightarrow> string \<Rightarrow> workbook \<Rightarrow> officeError + row list" where
  "loadTableValues sheetName tableName wb =
     (case findSheet sheetName wb of
        None \<Rightarrow> Inl (itemNotFound ''WorksheetCollection.getItem'')
      | Some sheet \<Rightarrow>
          (case map_of (wsTables sheet) tableName of
             None \<Rightarrow> Inl (itemNotFound ''TableCollection.getItem'')
           | Some v \<Rightarrow> Inr v))"

definition deleteSheet :: "string \<Rightarrow> workbook \<Rightarrow> workbook" where
  "deleteSheet n wb = wb\<lparr>worksheets := filter (\<lambda>s. wsName s \<noteq> n) (worksheets wb)\<rparr>"

definition validSheetName :: "string \<Rightarrow> bool" where
  "validSheetName n =
     (n \<noteq> [] \<and> length n \<le> 31 \<and>
      set n \<inter> set [CHR '':'', CHR 0x5C, CHR ''/'', CHR ''?'', CHR ''*'', CHR ''['', CHR '']''] = {} \<and>
      hd n \<noteq> CHR 0x27 \<and> last n \<noteq> CHR 0x27)"

definition emptySheet :: "string \<Rightarrow> worksheet" where
  "emptySheet n =
     \<lparr>wsName = n, wsTables = [], wsValues = [], wsNumberFormat = [], wsBold = [],
      wsAutofit = []\<rparr>"

definition addSheet :: "string \<Rightarrow> workbook \<Rightarrow> officeError + workbook" where
  "addSheet n wb =
     (if findSheet n wb \<noteq> None then
        Inl \<lparr>message = ''A resource with the same name or identifier already exists.'',
             errorLocation = ''WorksheetCollection.add''\<rparr>
      else if \<not> validSheetName n then
        Inl \<lparr>message = ''The argument is invalid or missing or has an incorrect format.'',
             errorLocation = ''WorksheetCollection.add''\<rparr>
      else Inr (wb\<lparr>worksheets := worksheets wb @ [emptySheet n]\<rparr>))"

definition onSheet :: "string \<Rightarrow> (worksheet \<Rightarrow> worksheet) \<Rightarrow> workbook \<Rightarrow> workbook" where
  "onSheet n f wb =
     wb\<lparr>worksheets := map (\<lambda>s. if wsName s = n then f s else s) (worksheets wb)\<rparr>"

definition setValues :: "string \<Rightarrow> string \<Rightarrow> number cell list list \<Rightarrow> workbook \<Rightarrow> workbook" where
  "setValues n address vs = onSheet n (\<lambda>s. s\<lparr>wsValues := AList.update address vs (wsValues s)\<rparr>)"

definition setNumberFormat :: "string \<Rightarrow> string \<Rightarrow> string \<Rightarrow> workbook \<Rightarrow> workbook" where
  "setNumberFormat n address fmt =
     onSheet n (\<lambda>s. s\<lparr>wsNumberFormat := AList.update address fmt (wsNumberFormat s)\<rparr>)"

definition setBold :: "string \<Rightarrow> string \<Rightarrow> workbook \<Rightarrow> workbook" where
  "setBold n address = onSheet n (\<lambda>s. s\<lparr>wsBold := List.insert address (wsBold s)\<rparr>)"

definition autofitColumns :: "string \<Rightarrow> string \<Rightarrow> workbook \<Rightarrow> workbook" where
  "autofitColumns n address = onSheet n (\<lambda>s. s\<lparr>wsAutofit := List.insert address (wsAutofit s)\<rparr>)"

definition activate :: "string \<Rightarrow> workbook \<Rightarrow> workbook" where
  "activate n wb = wb\<lparr>activeSheet := n\<rparr>"

section \<open>The calculation handler\<close>

definition updateStatus :: "string \<Rightarrow> bool \<Rightarrow> world \<Rightarrow> world" where
  "updateStatus msg isError w =
     w\<lparr>status := \<lparr>innerText = msg, color = (if isError then ''red'' else ''#555'')\<rparr>\<rparr>"

subsection \<open>Process data: the loop over the table rows\<close>

record aggregate =
  revenue :: number
  cogs :: number
  foundRevenue :: bool
  foundCogs :: bool

definition currentPeriod :: "(number \<Rightarrow> string) \<Rightarrow> row \<Rightarrow> string" where
  "currentPeriod numberToString r =
     (if truthy (cellAt r 1) then trim (jsString numberToString (cellAt r 1)) else [])"

definition currentAccount :: "(number \<Rightarrow> string) \<Rightarrow> row \<Rightarrow> string" where
  "currentAccount numberToString r =
     (if truthy (cellAt r 0) then toLowerCase (trim (jsString numberToString (cellAt r 0)))
      else [])"

definition currentAmount :: "row \<Rightarrow> number" where
  "currentAmount r = (case cellAt r 2 of Num x \<Rightarrow> Finite x | _ \<Rightarrow> Finite 0)"

text \<open>One iteration of the loop body.\<close>

definition processRow :: "(number \<Rightarrow> string) \<Rightarrow> string \<Rightarrow> aggregate \<Rightarrow> row \<Rightarrow> aggregate" where
  "processRow numberToString trimmedPeriod a r =
     (if currentPeriod numberToString r = trimmedPeriod then
        (if currentAccount numberToString r = ''revenue'' then
           a\<lparr>revenue := numAdd (revenue a) (currentAmount r), foundRevenue := True\<rparr>
         else if currentAccount numberToString r = ''cogs'' then
           a\<lparr>cogs := numAdd (cogs a) (currentAmount r), foundCogs := True\<rparr>
         else a)
      else a)"

fun processRows :: "(number \<Rightarrow> string) \<Rightarrow> string \<Rightarrow> aggregate \<Rightarrow> row list \<Rightarrow> aggregate" where
  "processRows numberToString trimmedPeriod a [] = a"
| "processRows numberToString trimmedPeriod a (r # rs) =
     processRows numberToString trimmedPeriod (processRow numberToString trimmedPeriod a r) rs"

definition processData :: "(number \<Rightarrow> string) \<Rightarrow> string \<Rightarrow> row list \<Rightarrow> aggregate" where
  "processData numberToString trimmedPeriod tableValues =
     processRows numberToString trimmedPeriod
       \<lparr>revenue = Finite 0, cogs = Finite 0, foundRevenue = False, foundCogs = False\<rparr>
       tableValues"

subsection \<open>Validate and calculate\<close>

record margin =
  mRevenue :: number
  mCogs :: number
  grossProfit :: number
  grossProfitMargin :: number

definition noRevenueMessage :: "string \<Rightarrow> string" where
  "noRevenueMessage trimmedPeriod =
     ''Error: No 'Revenue' found for period '' @ trimmedPeriod @ ''.''"

definition noCogsMessage :: "string \<Rightarrow> string" where
  "noCogsMessage trimmedPeriod =
     ''Error: No 'COGS' found for period '' @ trimmedPeriod @ ''.''"

definition nonPositiveMessage :: "(number \<Rightarrow> string) \<Rightarrow> number \<Rightarrow> string \<Rightarrow> string" where
  "nonPositiveMessage numberToString x trimmedPeriod =
     ''Error: Revenue ('' @ numberToString x @ '') is zero or negative for period '' @
     trimmedPeriod @ ''. Cannot calculate margin.''"

text \<open>
  The three checks and the two calculations. \<open>Inl\<close> carries the text reported on the
  status line when the handler returns early.
\<close>

definition validateAndCalculate ::
  "(number \<Rightarrow> string) \<Rightarrow> string \<Rightarrow> aggregate \<Rightarrow> string + margin" where
  "validateAndCalculate numberToString trimmedPeriod a =
     (if \<not> foundRevenue a then Inl (noRevenueMessage trimmedPeriod)
      else if \<not> foundCogs a then Inl (noCogsMessage trimmedPeriod)
      else if numLe (revenue a) (Finite 0) then
        Inl (nonPositiveMessage numberToString (revenue a) trimmedPeriod)
      else
        let gp = numSub (revenue a) (cogs a);
            gpm = numDiv gp (revenue a)
        in Inr \<lparr>mRevenue = revenue a, mCogs = cogs a, grossProfit = gp,
                 grossProfitMargin = gpm\<rparr>)"

subsection \<open>Prepare and write the output\<close>

definition outputSheetName :: "string \<Rightarrow> string" where
  "outputSheetName trimmedPeriod = ''GPM_'' @ trimmedPeriod"

definition outputData :: "string \<Rightarrow> margin \<Rightarrow> number cell list list" where
  "outputData trimmedPeriod m =
     [[Str ''Period:'', Str trimmedPeriod],
      [Null, Null],
      [Str ''Metric'', Str ''Value''],
      [Str ''Revenue'', Num (mRevenue m)],
      [Str ''COGS'', Num (mCogs m)],
      [Str ''Gross Profit'', Num (grossProfit m)],
      [Str ''Gross Profit Margin'', Num (grossProfitMargin m)]]"

definition completeMessage :: "string \<Rightarrow> string" where
  "completeMessage n =
     ''Calculation complete. Results on sheet '' @ [CHR 0x27] @ n @ [CHR 0x27] @ ''.''"

text \<open>The last batch: everything queued between the deletion and the final synchronisation.\<close>

definition outputRequests :: "string \<Rightarrow> request list" where
  "outputRequests n =
     [AddSheet n, SetValues n ''A1:B7'', SetNumberFormat n ''B4:B6'', SetNumberFormat n ''B7'',
      SetBold n ''A1:B1'', SetBold n ''A3:B3'', AutofitColumns n ''A1:B7'', Activate n]"

definition writeOutput :: "string \<Rightarrow> margin \<Rightarrow> world \<Rightarrow> officeError option \<times> world" where
  "writeOutput trimmedPeriod m w =
     (let n = outputSheetName trimmedPeriod;
          w1 = w\<lparr>requests := requests w @ [LoadSheetName n]\<rparr>;
          w2 = (if findSheet n (excel w1) \<noteq> None
                then w1\<lparr>excel := deleteSheet n (excel w1),
                        requests := requests w1 @ [DeleteSheet n]\<rparr>
                else w1);
          w3 = w2\<lparr>requests := requests w2 @ outputRequests n\<rparr>
      in case addSheet n (excel w2) of
           Inl err \<Rightarrow> (Some err, w3)
         | Inr wb \<Rightarrow>
             (None,
              updateStatus (completeMessage n) False
                (w3\<lparr>excel :=
                   activate n
                     (autofitColumns n ''A1:B7''
                       (setBold n ''A3:B3''
                         (setBold n ''A1:B1''
                           (setNumberFormat n ''B7'' ''0.00%''
                             (setNumberFormat n ''B4:B6'' ''$#,##0.00''
                               (setValues n ''A1:B7'' (outputData trimmedPeriod m) wb))))))\<rparr>)))"

subsection \<open>The transaction against the host document, and the handler\<close>

text \<open>
  The body passed to \<open>Excel.run\<close>. The first component of the result is the error with
  which the body was left, if any. Only the host raises errors: the loop and the
  calculation have no failing operation, so the branch of the handler for errors of
  another kind is never taken. Writing to the console leaves no trace in the model.
\<close>

definition excelRun :: "(number \<Rightarrow> string) \<Rightarrow> string \<Rightarrow> world \<Rightarrow> officeError option \<times> world" where
  "excelRun numberToString trimmedPeriod w =
     (let w1 = w\<lparr>requests := requests w @ [LoadTableValues ''DataSheet'' ''InputData'']\<rparr>
      in case loadTableValues ''DataSheet'' ''InputData'' (excel w1) of
           Inl err \<Rightarrow> (Some err, w1)
         | Inr tableValues \<Rightarrow>
             (case validateAndCalculate numberToString trimmedPeriod
                     (processData numberToString trimmedPeriod tableValues) of
                Inl msg \<Rightarrow> (None, updateStatus msg True w1)
              | Inr m \<Rightarrow> writeOutput trimmedPeriod m w1))"

definition hostErrorMessage :: "officeError \<Rightarrow> string" where
  "hostErrorMessage err =
     ''Error: '' @ message err @ '' (Debug: '' @
     (if errorLocation err = [] then ''N/A'' else errorLocation err) @ '')''"

definition runGpmCalculation :: "(number \<Rightarrow> string) \<Rightarrow> world \<Rightarrow> world" where
  "runGpmCalculation numberToString w =
     (if periodInput w = [] \<or> trim (periodInput w) = [] then
        updateStatus ''Error: Please enter a period.'' True w
      else
        let trimmedPeriod = trim (periodInput w);
            w1 = updateStatus (''Calculating GPM for period '' @ trimmedPeriod @ ''...'') False w
        in case excelRun numberToString trimmedPeriod w1 of
             (None, w2) \<Rightarrow> w2
           | (Some err, w2) \<Rightarrow> updateStatus (hostErrorMessage err) True w2)"

section \<open>Notions of the specification\<close>

text \<open>
  A row matches an account for a period when its normalised period equals the trimmed
  input period and its normalised account is the account's name. The summed revenue and the
  summed cost of goods sold are the sums, in the arithmetic of the language and in storage
  order, of the amounts of the matching rows.
\<close>

definition isRevenueRow :: "(number \<Rightarrow> string) \<Rightarrow> string \<Rightarrow> row \<Rightarrow> bool" where
  "isRevenueRow numberToString p r =
     (currentPeriod numberToString r = p \<and> currentAccount numberToString r = ''revenue'')"

definition isCogsRow :: "(number \<Rightarrow> string) \<Rightarrow> string \<Rightarrow> row \<Rightarrow> bool" where
  "isCogsRow numberToString p r =
     (currentPeriod numberToString r = p \<and> currentAccount numberToString r = ''cogs'')"

definition sumRevenue :: "(number \<Rightarrow> string) \<Rightarrow> string \<Rightarrow> row list \<Rightarrow> number" where
  "sumRevenue numberToString p rs =
     foldl numAdd (Finite 0) (map currentAmount (filter (isRevenueRow numberToString p) rs))"

definition sumCogs :: "(number \<Rightarrow> string) \<Rightarrow> string \<Rightarrow> row list \<Rightarrow> number" where
  "sumCogs numberToString p rs =
     foldl numAdd (Finite 0) (map currentAmount (filter (isCogsRow numberToString p) rs))"

text \<open>The world in which the table has been requested from the host.\<close>

definition afterLoad :: "world \<Rightarrow> world" where
  "afterLoad w = w\<lparr>requests := requests w @ [LoadTableValues ''DataSheet'' ''InputData'']\<rparr>"

text \<open>A row in which an amount cell that is not a number has been replaced by the number 0.\<close>

definition withZeroAmount :: "row \<Rightarrow> row" where
  "withZeroAmount r = (case cellAt r 2 of Num x \<Rightarrow> r | _ \<Rightarrow> [cellAt r 0, cellAt r 1, Num 0])"





text \<open>
  The output sheet as the handler leaves it, and the sheets of a workbook other than the
  one of a given name.
\<close>

definition outputSheet :: "string \<Rightarrow> margin \<Rightarrow> worksheet" where
  "outputSheet p m =
     \<lparr>wsName = outputSheetName p, wsTables = [],
      wsValues = [(''A1:B7'', outputData p m)],
      wsNumberFormat = [(''B4:B6'', ''$#,##0.00''), (''B7'', ''0.00%'')],
      wsBold = [''A3:B3'', ''A1:B1''], wsAutofit = [''A1:B7'']\<rparr>"

definition otherSheets :: "string \<Rightarrow> workbook \<Rightarrow> worksheet list" where
  "otherSheets n wb = filter (\<lambda>s. wsName s \<noteq> n) (worksheets wb)"

section \<open>Sample data\<close>

text \<open>
  A rendering of numbers used in the examples: decimal digits for integers (as the
  language prints integers below \<open>10 ^ 21\<close>).
\<close>

function showNat :: "nat \<Rightarrow> string" where
  "showNat n =
     (if n < 10 then [''0123456789'' ! n] else showNat (n div 10) @ [''0123456789'' ! (n mod 10)])"
  by pat_completeness auto
termination
  by (relation "measure id") auto

declare showNat.simps [simp del]

fun integerToString :: "number \<Rightarrow> string" where
  "integerToString (Finite x) =
     (if x = of_int \<lfloor>x\<rfloor> then (if x < 0 then ''-'' else []) @ showNat (nat \<bar>\<lfloor>x\<rfloor>\<bar>) else ''?'')"
| "integerToString PosInfinity = ''Infinity''"
| "integerToString NegInfinity = ''-Infinity''"
| "integerToString NaN = ''NaN''"

definition dataSheet :: "row list \<Rightarrow> worksheet" where
  "dataSheet rs =
     \<lparr>wsName = ''DataSheet'', wsTables = [(''InputData'', rs)], wsValues = [],
      wsNumberFormat = [], wsBold = [], wsAutofit = []\<rparr>"

definition sampleWorld :: "string \<Rightarrow> row list \<Rightarrow> world" where
  "sampleWorld input rs =
     \<lparr>periodInput = input,
      status = \<lparr>innerText = [], color = ''#555''\<rparr>,
      excel = \<lparr>worksheets = [dataSheet rs], activeSheet = ''DataSheet''\<rparr>,
      requests = []\<rparr>"

definition quarterRows :: "row list" where
  "quarterRows =
     [[Str ''Revenue'', Str ''Q1'', Num 1000],
      [Str ''COGS'', Str ''Q1'', Num 600],
      [Str ''Revenue'', Str ''Q2'', Num 500]]"

definition lossRows :: "row list" where
  "lossRows = [[Str ''Revenue '', Str ''Q1'', Num 100], [Str '' cogs'', Str '' Q1'', Num 200]]"

definition returnsRows :: "row list" where
  "returnsRows = [[Str ''Revenue'', Str ''Q1'', Num (- 100)], [Str ''COGS'', Str ''Q1'', Num 50]]"

definition zeroRevenueRows :: "row list" where
  "zeroRevenueRows = [[Str ''Revenue'', Str ''Q1'', Num 0]]"

definition refundRows :: "row list" where
  "refundRows = [[Str ''Revenue'', Str ''Q1'', Num 100], [Str ''COGS'', Str ''Q1'', Num (- 100)]]"

definition textAmountRows :: "row list" where
  "textAmountRows =
     [[Str ''Revenue'', Str ''Q1'', Str ''1,000''],
      [Str ''Revenue'', Str ''Q1'', Num 1000],
      [Str ''COGS'', Str ''Q1''],
      [Str ''COGS'', Str ''Q1'', Num 600]]"



section \<open>Facts about the arithmetic\<close>

lemma roundHalfEven_of_int: "roundHalfEven (of_int k) = k"
  by (simp add: roundHalfEven_def)

lemma bitLength_pos: "0 < n \<Longrightarrow> bitLength n = Suc (bitLength (n div 2))"
  by (simp add: bitLength.simps)

lemma bitLength_nonpos: "n \<le> 0 \<Longrightarrow> bitLength n = 0"
  by (simp add: bitLength.simps)

lemma bitLength_bounds: "0 < n \<Longrightarrow> 2 ^ (bitLength n - 1) \<le> n \<and> n < 2 ^ bitLength n"
proof (induction n rule: bitLength.induct)
  case (1 n)
  show ?case
  proof (cases "n = 1")
    case True
    then show ?thesis by (simp add: bitLength_pos bitLength_nonpos)
  next
    case False
    with "1.prems" have h: "0 < n div 2" by simp
    have nle: "\<not> n \<le> 0" using "1.prems" by simp
    from "1.IH" [OF nle h] have lo: "2 ^ (bitLength (n div 2) - 1) \<le> n div 2"
      and hi: "n div 2 < 2 ^ bitLength (n div 2)" by simp_all
    have bl: "bitLength n = Suc (bitLength (n div 2))" using "1.prems" by (rule bitLength_pos)
    have "0 < bitLength (n div 2)" using h by (simp add: bitLength_pos)
    then obtain k where k: "bitLength (n div 2) = Suc k" by (cases "bitLength (n div 2)") auto
    from lo k have "2 * 2 ^ k \<le> 2 * (n div 2)" by simp
    also have "\<dots> \<le> n" by simp
    finally have a: "2 ^ (bitLength n - 1) \<le> n" by (simp add: bl k)
    from hi have "n div 2 + 1 \<le> 2 ^ bitLength (n div 2)" by simp
    then have "2 * (n div 2) + 2 \<le> 2 * 2 ^ bitLength (n div 2)" by simp
    moreover have "n \<le> 2 * (n div 2) + 1" by simp
    ultimately have b: "n < 2 ^ bitLength n" by (simp add: bl)
    from a b show ?thesis by simp
  qed
qed

lemma bitLength_le: "0 < n \<Longrightarrow> n < 2 ^ k \<Longrightarrow> bitLength n \<le> k"
proof (rule ccontr)
  assume n: "0 < n" and lt: "n < 2 ^ k" and "\<not> bitLength n \<le> k"
  then have "k \<le> bitLength n - 1" by simp
  then have "(2::int) ^ k \<le> 2 ^ (bitLength n - 1)" by (rule power_increasing) simp
  also have "\<dots> \<le> n" using bitLength_bounds [OF n] by simp
  finally show False using lt by simp
qed

text \<open>An integer of magnitude at most \<open>2 ^ 53\<close> is representable: rounding keeps it.\<close>

lemma roundDouble_of_int:
  assumes "\<bar>n\<bar> \<le> 2 ^ 53"
  shows "roundDouble (of_int n) = Finite (of_int n)"
proof (cases "n = 0")
  case True
  then show ?thesis by (simp add: roundDouble_def)
next
  case False
  note nz = False
  define m where "m = \<bar>n\<bar>"
  have m: "0 < m" "m \<le> 2 ^ 53" using nz assms by (simp_all add: m_def)
  define b where "b = bitLength m"
  have "m < 2 ^ 54" using m(2) by simp
  then have b54: "b \<le> 54" unfolding b_def using m(1) by (simp add: bitLength_le)
  have fl: "floorLog2 \<bar>real_of_int n\<bar> = int b - 1"
  proof -
    have "\<bar>real_of_int n\<bar> = real_of_int m" by (simp add: m_def)
    moreover have "1 \<le> real_of_int m" using m(1) by simp
    ultimately show ?thesis by (simp add: floorLog2_def b_def)
  qed
  have pmax: "max (int b - 1 - 52) (- 1074) = int b - 53" by simp
  have small: "\<not> 2 ^ 1024 \<le> \<bar>real_of_int n\<bar>"
  proof -
    have "\<bar>real_of_int n\<bar> \<le> 2 ^ 53"
      using assms by (metis of_int_abs of_int_le_numeral_power_cancel_iff)
    also have "\<dots> < (2::real) ^ 1024" by simp
    finally show ?thesis by simp
  qed
  show ?thesis
  proof (cases "b \<le> 53")
    case True
    define j where "j = 53 - b"
    have p2: "pow2 (int b - 53) = 1 / 2 ^ j"
      using True by (auto simp: pow2_def j_def nat_diff_distrib' dest: antisym)
    have "real_of_int n / pow2 (int b - 53) = real_of_int (n * 2 ^ j)" by (simp add: p2)
    then have rh: "roundHalfEven (real_of_int n / pow2 (int b - 53)) = n * 2 ^ j"
      by (simp only: roundHalfEven_of_int)
    have rt: "real_of_int (n * 2 ^ j) * pow2 (int b - 53) = real_of_int n" by (simp add: p2)
    show ?thesis
      unfolding roundDouble_def Let_def fl pmax rh rt using nz small by simp
  next
    case False
    with b54 have b: "b = 54" by simp
    have "2 ^ (b - 1) \<le> m" using bitLength_bounds [OF m(1)] by (simp add: b_def)
    with m(2) b have meq: "m = 2 ^ 53" by simp
    have p2: "pow2 (int b - 53) = 2" by (simp add: b pow2_def)
    have ev: "n = 2 * (n div 2)"
    proof -
      have "even m" by (simp add: meq)
      then have "even n" by (simp add: m_def)
      then show ?thesis by simp
    qed
    have "real_of_int n / 2 = real_of_int (n div 2)"
      using ev by (metis nonzero_mult_div_cancel_left of_int_mult of_int_numeral zero_neq_numeral)
    then have rh: "roundHalfEven (real_of_int n / pow2 (int b - 53)) = n div 2"
      by (simp only: p2 roundHalfEven_of_int)
    have rt: "real_of_int (n div 2) * pow2 (int b - 53) = real_of_int n"
      using ev by (metis p2 mult.commute of_int_mult of_int_numeral)
    show ?thesis
      unfolding roundDouble_def Let_def fl pmax rh rt using nz small by simp
  qed
qed

lemma roundDouble_zero [simp]: "roundDouble 0 = Finite 0"
  by (simp add: roundDouble_def)

lemma roundDouble_numeral [simp]:
  "numeral k \<le> (2::int) ^ 53 \<Longrightarrow> roundDouble (numeral k) = Finite (numeral k)"
  using roundDouble_of_int [of "numeral k"] by simp

lemma roundDouble_neg_numeral [simp]:
  "numeral k \<le> (2::int) ^ 53 \<Longrightarrow> roundDouble (- numeral k) = Finite (- numeral k)"
  using roundDouble_of_int [of "- numeral k"] by simp

lemma roundDouble_one [simp]: "roundDouble 1 = Finite 1" "roundDouble (- 1) = Finite (- 1)"
  using roundDouble_of_int [of 1] roundDouble_of_int [of "- 1"] by simp_all


lemma roundDouble_not_NaN: "roundDouble q \<noteq> NaN"
  by (simp add: roundDouble_def Let_def)

lemma numAdd_Finite_not_NaN: "x \<noteq> NaN \<Longrightarrow> numAdd x (Finite b) \<noteq> NaN"
  by (cases x) (simp_all add: roundDouble_not_NaN)

lemma numLt_not_numLe: "numLt x y \<Longrightarrow> \<not> numLe y x"
  by (cases x; cases y) simp_all

lemma not_numLe_numLt: "\<not> numLe x y \<Longrightarrow> x \<noteq> NaN \<Longrightarrow> y \<noteq> NaN \<Longrightarrow> numLt y x"
  by (cases x; cases y) simp_all

text \<open>Unfolding the model on concrete data.\<close>

lemmas string_eval =
  trim_def isWhiteSpace_def toLowerCase_def lowerChar_def upperCaseLetters_def
  lowerCaseLetters_def

lemmas number_eval =
  roundDouble_def floorLog2_def roundHalfEven_def pow2_def bitLength.simps Let_def

lemmas row_eval =
  isRevenueRow_def isCogsRow_def sumRevenue_def sumCogs_def currentPeriod_def
  currentAccount_def currentAmount_def cellAt_def

section \<open>Facts about trimming\<close>






section \<open>The loop as a fold\<close>

lemma processRow_cases:
  "processRow ts p a r =
     (if isRevenueRow ts p r then
        a\<lparr>revenue := numAdd (revenue a) (currentAmount r), foundRevenue := True\<rparr>
      else if isCogsRow ts p r then
        a\<lparr>cogs := numAdd (cogs a) (currentAmount r), foundCogs := True\<rparr>
      else a)"
  by (simp add: processRow_def isRevenueRow_def isCogsRow_def)

lemma revenue_row_not_cogs_row: "isRevenueRow ts p r \<Longrightarrow> \<not> isCogsRow ts p r"
  by (simp add: isRevenueRow_def isCogsRow_def)

lemma processRows_fold:
  "processRows ts p a rs =
     \<lparr>revenue = foldl numAdd (revenue a) (map currentAmount (filter (isRevenueRow ts p) rs)),
      cogs = foldl numAdd (cogs a) (map currentAmount (filter (isCogsRow ts p) rs)),
      foundRevenue = (foundRevenue a \<or> list_ex (isRevenueRow ts p) rs),
      foundCogs = (foundCogs a \<or> list_ex (isCogsRow ts p) rs)\<rparr>"
proof (induction rs arbitrary: a)
  case Nil
  show ?case by simp
next
  case (Cons r rs)
  show ?case
    by (simp add: Cons.IH processRow_cases revenue_row_not_cogs_row)
qed

lemma processData_fold:
  "processData ts p rs =
     \<lparr>revenue = sumRevenue ts p rs, cogs = sumCogs ts p rs,
      foundRevenue = list_ex (isRevenueRow ts p) rs,
      foundCogs = list_ex (isCogsRow ts p) rs\<rparr>"
  by (simp add: processData_def processRows_fold sumRevenue_def sumCogs_def)

section \<open>The period field is passed through\<close>



section \<open>Facts about the handler\<close>

subsection \<open>The handler once the table is read\<close>

lemma runGpmCalculation_with_table:
  assumes "trim (periodInput w) = p" and "p \<noteq> []"
    and "loadTableValues ''DataSheet'' ''InputData'' (excel w) = Inr rs"
  shows "runGpmCalculation ts w =
     (case validateAndCalculate ts p (processData ts p rs) of
        Inl msg \<Rightarrow> updateStatus msg True (afterLoad w)
      | Inr m \<Rightarrow>
          (case writeOutput p m
                  (afterLoad (updateStatus (''Calculating GPM for period '' @ p @ ''...'') False w)) of
             (None, w2) \<Rightarrow> w2
           | (Some err, w2) \<Rightarrow> updateStatus (hostErrorMessage err) True w2))"
proof -
  have "periodInput w \<noteq> []" using assms(1,2) by (auto simp: trim_def)
  then show ?thesis
    using assms
    by (cases "validateAndCalculate ts p (processData ts p rs)")
      (simp_all add: runGpmCalculation_def excelRun_def Let_def updateStatus_def afterLoad_def)
qed

subsection \<open>The sums\<close>

lemma foldl_numAdd_not_NaN:
  "a \<noteq> NaN \<Longrightarrow> foldl numAdd a (map currentAmount rs) \<noteq> NaN"
proof (induction rs arbitrary: a)
  case Nil
  then show ?case by simp
next
  case (Cons r rs)
  have "numAdd a (currentAmount r) \<noteq> NaN"
    using Cons.prems by (cases "cellAt r 2") (simp_all add: currentAmount_def numAdd_Finite_not_NaN)
  then show ?case using Cons.IH by simp
qed

lemma sumRevenue_not_NaN: "sumRevenue ts p rs \<noteq> NaN"
  unfolding sumRevenue_def by (rule foldl_numAdd_not_NaN) simp

lemma withZeroAmount_same:
  "currentPeriod ts (withZeroAmount r) = currentPeriod ts r"
  "currentAccount ts (withZeroAmount r) = currentAccount ts r"
  "currentAmount (withZeroAmount r) = currentAmount r"
  by (cases "cellAt r 2"; simp add: withZeroAmount_def currentPeriod_def currentAccount_def
      currentAmount_def cellAt_def)+

lemma withZeroAmount_rows:
  "isRevenueRow ts p \<circ> withZeroAmount = isRevenueRow ts p"
  "isCogsRow ts p \<circ> withZeroAmount = isCogsRow ts p"
  "currentAmount \<circ> withZeroAmount = currentAmount"
  by (simp_all add: fun_eq_iff isRevenueRow_def isCogsRow_def withZeroAmount_same)

lemma processData_withZeroAmount:
  "processData ts p (map withZeroAmount rs) = processData ts p rs"
  by (simp add: processData_fold sumRevenue_def sumCogs_def filter_map list_ex_iff
      withZeroAmount_rows isRevenueRow_def isCogsRow_def withZeroAmount_same)

lemma foldl_numAdd_zeros:
  "list_all (\<lambda>x. x = Finite 0) xs \<Longrightarrow> foldl numAdd (Finite 0) xs = Finite 0"
  by (induction xs) simp_all

subsection \<open>Sums without rounding\<close>








subsection \<open>Writing the output sheet\<close>

lemma findSheet_None_iff: "findSheet n wb = None \<longleftrightarrow> (\<forall>s \<in> set (worksheets wb). wsName s \<noteq> n)"
  by (auto simp: findSheet_def find_None_iff)

lemma otherSheets_absent: "findSheet n wb = None \<Longrightarrow> otherSheets n wb = worksheets wb"
  by (simp add: findSheet_None_iff otherSheets_def)

lemma map_other_sheets:
  "\<forall>s \<in> set ws. wsName s \<noteq> n \<Longrightarrow> map (\<lambda>s. if wsName s = n then f s else s) ws = ws"
  by (induction ws) auto

lemma onSheet_last:
  assumes "\<forall>s \<in> set ws. wsName s \<noteq> n" and "wsName e = n"
  shows "onSheet n f \<lparr>worksheets = ws @ [e], activeSheet = a\<rparr> =
    \<lparr>worksheets = ws @ [f e], activeSheet = a\<rparr>"
  using assms by (simp add: onSheet_def map_other_sheets)

lemma writeOutput_valid:
  assumes "validSheetName (outputSheetName p)"
  shows "writeOutput p m w =
    (None,
     w\<lparr>requests :=
         requests w @ [LoadSheetName (outputSheetName p)] @
         (if findSheet (outputSheetName p) (excel w) \<noteq> None
          then [DeleteSheet (outputSheetName p)] else []) @
         outputRequests (outputSheetName p),
       excel :=
         \<lparr>worksheets = otherSheets (outputSheetName p) (excel w) @ [outputSheet p m],
          activeSheet = outputSheetName p\<rparr>,
       status := \<lparr>innerText = completeMessage (outputSheetName p), color = ''#555''\<rparr>\<rparr>)"
proof -
  define n where "n = outputSheetName p"
  define ws where "ws = otherSheets n (excel w)"
  define w1 where "w1 = w\<lparr>requests := requests w @ [LoadSheetName n]\<rparr>"
  define w2 where "w2 = (if findSheet n (excel w1) \<noteq> None
      then w1\<lparr>excel := deleteSheet n (excel w1), requests := requests w1 @ [DeleteSheet n]\<rparr>
      else w1)"
  have absent: "\<forall>s \<in> set ws. wsName s \<noteq> n"
    by (simp add: ws_def otherSheets_def)
  have e2: "excel w2 = \<lparr>worksheets = ws, activeSheet = activeSheet (excel w)\<rparr>"
    by (cases "findSheet n (excel w)")
      (simp_all add: w2_def w1_def ws_def deleteSheet_def otherSheets_absent, simp add: otherSheets_def)
  have none: "findSheet n (excel w2) = None"
    using absent by (simp add: e2 findSheet_None_iff)
  have add: "addSheet n (excel w2) =
      Inr \<lparr>worksheets = ws @ [emptySheet n], activeSheet = activeSheet (excel w)\<rparr>"
    using assms by (simp add: addSheet_def none n_def [symmetric]) (simp add: e2)
  have nm: "wsName (emptySheet n) = n" by (simp add: emptySheet_def)
  have fin: "activate n
      (autofitColumns n ''A1:B7''
        (setBold n ''A3:B3''
          (setBold n ''A1:B1''
            (setNumberFormat n ''B7'' ''0.00%''
              (setNumberFormat n ''B4:B6'' ''$#,##0.00''
                (setValues n ''A1:B7'' (outputData p m)
                  \<lparr>worksheets = ws @ [emptySheet n], activeSheet = activeSheet (excel w)\<rparr>)))))) =
      \<lparr>worksheets = ws @ [outputSheet p m], activeSheet = n\<rparr>"
    by (simp add: activate_def autofitColumns_def setBold_def setNumberFormat_def setValues_def
        onSheet_last [OF absent] emptySheet_def outputSheet_def n_def [symmetric])
  have "writeOutput p m w =
      (case addSheet n (excel w2) of
         Inl err \<Rightarrow> (Some err, w2\<lparr>requests := requests w2 @ outputRequests n\<rparr>)
       | Inr wb \<Rightarrow>
           (None,
            updateStatus (completeMessage n) False
              (w2\<lparr>requests := requests w2 @ outputRequests n,
                  excel :=
                   activate n
                     (autofitColumns n ''A1:B7''
                       (setBold n ''A3:B3''
                         (setBold n ''A1:B1''
                           (setNumberFormat n ''B7'' ''0.00%''
                             (setNumberFormat n ''B4:B6'' ''$#,##0.00''
                               (setValues n ''A1:B7'' (outputData p m) wb))))))\<rparr>)))"
    unfolding writeOutput_def Let_def n_def [symmetric] w1_def [symmetric] w2_def [symmetric]
    by (rule refl)
  also have "\<dots> =
      (None,
       updateStatus (completeMessage n) False
         (w2\<lparr>requests := requests w2 @ outputRequests n,
             excel := \<lparr>worksheets = ws @ [outputSheet p m], activeSheet = n\<rparr>\<rparr>))"
    by (simp only: add sum.case fin)
  also have "\<dots> =
      (None,
       w\<lparr>requests :=
           requests w @ [LoadSheetName n] @
           (if findSheet n (excel w) \<noteq> None then [DeleteSheet n] else []) @ outputRequests n,
         excel := \<lparr>worksheets = ws @ [outputSheet p m], activeSheet = n\<rparr>,
         status := \<lparr>innerText = completeMessage n, color = ''#555''\<rparr>\<rparr>)"
    by (simp add: w2_def w1_def updateStatus_def)
  finally show ?thesis by (simp only: n_def ws_def)
qed

lemma writeOutput_invalid:
  assumes "\<not> validSheetName (outputSheetName p)"
  shows "fst (writeOutput p m w) \<noteq> None"
  using assms by (simp add: writeOutput_def Let_def addSheet_def)

lemma validate_message_not_complete:
  "validateAndCalculate ts p a = Inl msg \<Longrightarrow> msg \<noteq> completeMessage n"
  by (auto simp: validateAndCalculate_def completeMessage_def noRevenueMessage_def
      noCogsMessage_def nonPositiveMessage_def Let_def split: if_splits)

lemma runGpmCalculation_completed:
  assumes "trim (periodInput w) = p" and "p \<noteq> []"
    and "loadTableValues ''DataSheet'' ''InputData'' (excel w) = Inr rs"
    and "validateAndCalculate ts p (processData ts p rs) = Inr m"
    and "validSheetName (outputSheetName p)"
  shows "runGpmCalculation ts w =
    w\<lparr>requests :=
        requests w @
        [LoadTableValues ''DataSheet'' ''InputData'', LoadSheetName (outputSheetName p)] @
        (if findSheet (outputSheetName p) (excel w) \<noteq> None
         then [DeleteSheet (outputSheetName p)] else []) @
        outputRequests (outputSheetName p),
      excel :=
        \<lparr>worksheets = otherSheets (outputSheetName p) (excel w) @ [outputSheet p m],
         activeSheet = outputSheetName p\<rparr>,
      status := \<lparr>innerText = completeMessage (outputSheetName p), color = ''#555''\<rparr>\<rparr>"
  by (simp add: runGpmCalculation_with_table [OF assms(1-3)] assms(4)
      writeOutput_valid [OF assms(5)] afterLoad_def updateStatus_def)

text \<open>The status line reports completion only when the output has been written.\<close>

lemma completion_reported:
  assumes "innerText (status (runGpmCalculation ts w)) = completeMessage n"
  obtains rs m where "trim (periodInput w) \<noteq> []"
    and "loadTableValues ''DataSheet'' ''InputData'' (excel w) = Inr rs"
    and "validateAndCalculate ts (trim (periodInput w)) (processData ts (trim (periodInput w)) rs) = Inr m"
    and "validSheetName (outputSheetName (trim (periodInput w)))"
proof -
  define p where "p = trim (periodInput w)"
  have ne: "p \<noteq> []"
  proof
    assume "p = []"
    then have "runGpmCalculation ts w = updateStatus ''Error: Please enter a period.'' True w"
      by (simp add: runGpmCalculation_def p_def)
    with assms show False by (simp add: updateStatus_def completeMessage_def)
  qed
  then have ne': "periodInput w \<noteq> []" by (auto simp: p_def trim_def)
  show ?thesis
  proof (cases "loadTableValues ''DataSheet'' ''InputData'' (excel w)")
    case (Inl err)
    then have "runGpmCalculation ts w =
        updateStatus (hostErrorMessage err) True
          (afterLoad (updateStatus (''Calculating GPM for period '' @ p @ ''...'') False w))"
      using ne ne'
      by (simp add: runGpmCalculation_def excelRun_def Let_def p_def [symmetric] afterLoad_def
          updateStatus_def)
    with assms show ?thesis
      by (simp add: updateStatus_def completeMessage_def hostErrorMessage_def)
  next
    case (Inr rs)
    note tbl = Inr
    note run = runGpmCalculation_with_table [OF p_def [symmetric] ne tbl, of ts]
    show ?thesis
    proof (cases "validateAndCalculate ts p (processData ts p rs)")
      case (Inl msg)
      with run have "innerText (status (runGpmCalculation ts w)) = msg"
        by (simp add: updateStatus_def)
      with assms validate_message_not_complete [OF Inl, of n] show ?thesis by simp
    next
      case (Inr m)
      have valid: "validSheetName (outputSheetName p)"
      proof (rule ccontr)
        assume inv: "\<not> validSheetName (outputSheetName p)"
        let ?w = "afterLoad (updateStatus (''Calculating GPM for period '' @ p @ ''...'') False w)"
        from writeOutput_invalid [OF inv, of m ?w]
        obtain err w2 where "writeOutput p m ?w = (Some err, w2)"
          by (cases "writeOutput p m ?w") auto
        with run Inr have "runGpmCalculation ts w = updateStatus (hostErrorMessage err) True w2"
          by simp
        with assms show False
          by (simp add: updateStatus_def completeMessage_def hostErrorMessage_def)
      qed
      from that [OF _ tbl] ne Inr valid show ?thesis by (simp add: p_def)
    qed
  qed
qed

lemma completeMessage_inject: "completeMessage n = completeMessage n' \<Longrightarrow> n = n'"
  by (simp add: completeMessage_def)

lemma validate_Inr:
  assumes "validateAndCalculate ts p (processData ts p rs) = Inr m"
  shows "m = \<lparr>mRevenue = sumRevenue ts p rs, mCogs = sumCogs ts p rs,
              grossProfit = numSub (sumRevenue ts p rs) (sumCogs ts p rs),
              grossProfitMargin =
                numDiv (numSub (sumRevenue ts p rs) (sumCogs ts p rs)) (sumRevenue ts p rs)\<rparr>"
  using assms
  by (auto simp: validateAndCalculate_def processData_fold Let_def split: if_splits)

lemma findSheet_output:
  "findSheet (outputSheetName p)
     \<lparr>worksheets = otherSheets (outputSheetName p) wb @ [outputSheet p m], activeSheet = a\<rparr> =
   Some (outputSheet p m)"
proof -
  have "find (\<lambda>s. wsName s = n) (filter (\<lambda>s. wsName s \<noteq> n) ws @ [e]) = Some e"
    if "wsName e = n" for n ws and e :: worksheet
    using that by (induction ws) auto
  then show ?thesis
    by (simp add: findSheet_def otherSheets_def outputSheet_def)
qed

lemma one_output_sheet:
  "length (filter (\<lambda>s. wsName s = outputSheetName p)
     (otherSheets (outputSheetName p) wb @ [outputSheet p m])) = 1"
  by (simp add: otherSheets_def outputSheet_def)

subsection \<open>The workbook after a completed run\<close>

lemma find_other_sheets:
  assumes "d \<noteq> n" and "wsName e = n"
  shows "find (\<lambda>s. wsName s = d) (filter (\<lambda>s. wsName s \<noteq> n) ws @ [e]) =
    find (\<lambda>s. wsName s = d) ws"
  using assms by (induction ws) auto

lemma loadTableValues_after_output:
  "loadTableValues ''DataSheet'' ''InputData''
     \<lparr>worksheets = otherSheets (outputSheetName p) wb @ [outputSheet p m], activeSheet = a\<rparr> =
   loadTableValues ''DataSheet'' ''InputData'' wb"
proof -
  have "''DataSheet'' \<noteq> outputSheetName p" by (simp add: outputSheetName_def)
  moreover have "wsName (outputSheet p m) = outputSheetName p" by (simp add: outputSheet_def)
  ultimately show ?thesis
    by (simp add: loadTableValues_def findSheet_def otherSheets_def find_other_sheets)
qed

lemma otherSheets_after_output:
  "otherSheets (outputSheetName p)
     \<lparr>worksheets = otherSheets (outputSheetName p) wb @ [outputSheet p m], activeSheet = a\<rparr> =
   otherSheets (outputSheetName p) wb"
  by (simp add: otherSheets_def outputSheet_def)

section \<open>Facts about the sample data\<close>

lemma sampleWorld_table:
  "loadTableValues ''DataSheet'' ''InputData'' (excel (sampleWorld input rs)) = Inr rs"
  by (simp add: loadTableValues_def findSheet_def sampleWorld_def dataSheet_def)

lemma lossRows_sums:
  "sumRevenue integerToString ''Q1'' lossRows = Finite 100"
  "sumCogs integerToString ''Q1'' lossRows = Finite 200"
  by (simp_all add: lossRows_def row_eval string_eval)

lemma lossRows_found:
  "list_ex (isRevenueRow integerToString ''Q1'') lossRows"
  "list_ex (isCogsRow integerToString ''Q1'') lossRows"
  by (simp_all add: lossRows_def row_eval string_eval)

lemma refundRows_sums:
  "sumRevenue integerToString ''Q1'' refundRows = Finite 100"
  "sumCogs integerToString ''Q1'' refundRows = Finite (- 100)"
  by (simp_all add: refundRows_def row_eval string_eval)

lemma refundRows_found:
  "list_ex (isRevenueRow integerToString ''Q1'') refundRows"
  "list_ex (isCogsRow integerToString ''Q1'') refundRows"
  by (simp_all add: refundRows_def row_eval string_eval)

lemma sampleWorld_input: "periodInput (sampleWorld input rs) = input"
  by (simp add: sampleWorld_def)

lemma quarterRows_Q3:
  "\<not> list_ex (isRevenueRow integerToString ''Q3'') quarterRows"
  by (simp add: quarterRows_def row_eval string_eval)

lemma quarterRows_Q2:
  "list_ex (isRevenueRow integerToString ''Q2'') quarterRows"
  "\<not> list_ex (isCogsRow integerToString ''Q2'') quarterRows"
  by (simp_all add: quarterRows_def row_eval string_eval)

lemma returnsRows_facts:
  "list_ex (isRevenueRow integerToString ''Q1'') returnsRows"
  "list_ex (isCogsRow integerToString ''Q1'') returnsRows"
  "sumRevenue integerToString ''Q1'' returnsRows = Finite (- 100)"
  by (simp_all add: returnsRows_def row_eval string_eval)

lemma roundDouble_two_fifths: "roundDouble (2 / 5) = Finite (3602879701896397 / 9007199254740992)"
  by (simp add: number_eval)

lemma quarterRows_Q1:
  "sumRevenue integerToString ''Q1'' quarterRows = Finite 1000"
  "sumCogs integerToString ''Q1'' quarterRows = Finite 600"
  "list_ex (isRevenueRow integerToString ''Q1'') quarterRows"
  "list_ex (isCogsRow integerToString ''Q1'') quarterRows"
  by (simp_all add: quarterRows_def row_eval string_eval)

lemma quarterRows_margin:
  "validateAndCalculate integerToString ''Q1'' (processData integerToString ''Q1'' quarterRows) =
     Inr \<lparr>mRevenue = Finite 1000, mCogs = Finite 600, grossProfit = Finite 400,
          grossProfitMargin = Finite (3602879701896397 / 9007199254740992)\<rparr>"
  by (simp add: validateAndCalculate_def processData_fold quarterRows_Q1 numSub_def Let_def
      roundDouble_two_fifths)

lemma sample_name_valid: "validSheetName (outputSheetName ''Q1'')"
  by (simp add: validSheetName_def outputSheetName_def)

lemma sample_trim: "trim (periodInput (sampleWorld '' Q1 '' rs)) = ''Q1''"
  by (simp add: sampleWorld_input string_eval)

lemma sample_completed:
  "innerText (status (runGpmCalculation integerToString (sampleWorld '' Q1 '' quarterRows))) =
     completeMessage ''GPM_Q1''"
proof -
  have ne: "''Q1'' \<noteq> []" by simp
  show ?thesis
    by (simp add: runGpmCalculation_completed
          [OF sample_trim ne sampleWorld_table quarterRows_margin sample_name_valid])
      (simp add: outputSheetName_def)
qed

section \<open>Gross profit and margin\<close>

text \<open>
  Claim C1. For every period \<open>p\<close> and every table \<open>rs\<close> read from the data sheet: if some
  row matches revenue for \<open>p\<close>, some row matches cogs for \<open>p\<close>, and the summed revenue is
  greater than zero, then the handler computes the gross profit as summed revenue minus
  summed cogs and the margin as gross profit divided by summed revenue, and goes on to
  write exactly these values. The operations are those of the language (binary64); the
  ratio is not clamped: in the examples below it is \<open>-1\<close> and \<open>2\<close>.
\<close>

theorem gross_profit_margin_computed:
  assumes "list_ex (isRevenueRow ts p) rs"
    and "list_ex (isCogsRow ts p) rs"
    and "numLt (Finite 0) (sumRevenue ts p rs)"
    and "loadTableValues ''DataSheet'' ''InputData'' (excel w) = Inr rs"
  shows "validateAndCalculate ts p (processData ts p rs) =
           Inr \<lparr>mRevenue = sumRevenue ts p rs, mCogs = sumCogs ts p rs,
                grossProfit = numSub (sumRevenue ts p rs) (sumCogs ts p rs),
                grossProfitMargin =
                  numDiv (numSub (sumRevenue ts p rs) (sumCogs ts p rs)) (sumRevenue ts p rs)\<rparr> \<and>
         excelRun ts p w =
           writeOutput p
             \<lparr>mRevenue = sumRevenue ts p rs, mCogs = sumCogs ts p rs,
              grossProfit = numSub (sumRevenue ts p rs) (sumCogs ts p rs),
              grossProfitMargin =
                numDiv (numSub (sumRevenue ts p rs) (sumCogs ts p rs)) (sumRevenue ts p rs)\<rparr>
             (afterLoad w)"
  using assms
  by (simp add: excelRun_def afterLoad_def validateAndCalculate_def processData_fold
      numLt_not_numLe Let_def)

theorem gross_profit_margin_computed_witness:
  "validateAndCalculate integerToString ''Q1'' (processData integerToString ''Q1'' lossRows) =
     Inr \<lparr>mRevenue = Finite 100, mCogs = Finite 200, grossProfit = Finite (- 100),
          grossProfitMargin = Finite (- 1)\<rparr> \<and>
   excelRun integerToString ''Q1'' (sampleWorld '' Q1 '' lossRows) =
     writeOutput ''Q1''
       \<lparr>mRevenue = Finite 100, mCogs = Finite 200, grossProfit = Finite (- 100),
        grossProfitMargin = Finite (- 1)\<rparr>
       (afterLoad (sampleWorld '' Q1 '' lossRows)) \<and>
   validateAndCalculate integerToString ''Q1'' (processData integerToString ''Q1'' refundRows) =
     Inr \<lparr>mRevenue = Finite 100, mCogs = Finite (- 100), grossProfit = Finite 200,
          grossProfitMargin = Finite 2\<rparr>"
proof -
  have pos: "numLt (Finite 0) (sumRevenue integerToString ''Q1'' lossRows)"
    by (simp add: lossRows_sums)
  have pos': "numLt (Finite 0) (sumRevenue integerToString ''Q1'' refundRows)"
    by (simp add: refundRows_sums)
  show ?thesis
    using gross_profit_margin_computed
        [OF lossRows_found pos sampleWorld_table [of "'' Q1 ''" lossRows]]
      gross_profit_margin_computed
        [OF refundRows_found pos' sampleWorld_table [of "''Q1''" refundRows]]
    by (simp add: lossRows_sums refundRows_sums numSub_def)
qed

section \<open>Validation of the period field\<close>




section \<open>Missing data and non-positive revenue\<close>

text \<open>
  Claim C3. With a non-empty trimmed period \<open>p\<close> and the table \<open>rs\<close> read: if no row
  matches revenue for \<open>p\<close>, the handler stops before any calculation and shows the
  message that no revenue was found, which names \<open>p\<close> (whether or not a cogs row
  matches: this check comes first); if a revenue row matches and no cogs row does, it stops
  with the message that no cogs was found, which names \<open>p\<close>.
\<close>

theorem missing_rows_reported:
  assumes "trim (periodInput w) = p" and "p \<noteq> []"
    and "loadTableValues ''DataSheet'' ''InputData'' (excel w) = Inr rs"
  shows "(\<not> list_ex (isRevenueRow ts p) rs \<longrightarrow>
            validateAndCalculate ts p (processData ts p rs) = Inl (noRevenueMessage p) \<and>
            runGpmCalculation ts w = updateStatus (noRevenueMessage p) True (afterLoad w)) \<and>
         (list_ex (isRevenueRow ts p) rs \<and> \<not> list_ex (isCogsRow ts p) rs \<longrightarrow>
            validateAndCalculate ts p (processData ts p rs) = Inl (noCogsMessage p) \<and>
            runGpmCalculation ts w = updateStatus (noCogsMessage p) True (afterLoad w))"
  by (simp add: runGpmCalculation_with_table [OF assms] validateAndCalculate_def processData_fold)

theorem missing_rows_reported_witness:
  "status (runGpmCalculation integerToString (sampleWorld '' Q3 '' quarterRows)) =
     \<lparr>innerText = ''Error: No 'Revenue' found for period Q3.'', color = ''red''\<rparr> \<and>
   status (runGpmCalculation integerToString (sampleWorld ''Q2'' quarterRows)) =
     \<lparr>innerText = ''Error: No 'COGS' found for period Q2.'', color = ''red''\<rparr>"
proof -
  have t3: "trim (periodInput (sampleWorld '' Q3 '' quarterRows)) = ''Q3''"
    by (simp add: sampleWorld_input string_eval)
  have t2: "trim (periodInput (sampleWorld ''Q2'' quarterRows)) = ''Q2''"
    by (simp add: sampleWorld_input string_eval)
  have ne: "''Q3'' \<noteq> []" "''Q2'' \<noteq> []" by simp_all
  from missing_rows_reported [OF t3 ne(1) sampleWorld_table, of integerToString] quarterRows_Q3
  have "runGpmCalculation integerToString (sampleWorld '' Q3 '' quarterRows) =
      updateStatus (noRevenueMessage ''Q3'') True (afterLoad (sampleWorld '' Q3 '' quarterRows))"
    by blast
  moreover
  from missing_rows_reported [OF t2 ne(2) sampleWorld_table, of integerToString] quarterRows_Q2
  have "runGpmCalculation integerToString (sampleWorld ''Q2'' quarterRows) =
      updateStatus (noCogsMessage ''Q2'') True (afterLoad (sampleWorld ''Q2'' quarterRows))"
    by blast
  ultimately show ?thesis
    by (simp add: updateStatus_def noRevenueMessage_def noCogsMessage_def)
qed


text \<open>
  Claim C4. With matching revenue and cogs rows and an accumulated revenue that is zero
  or negative, the handler stops with the message that revenue is zero or negative, and the
  workbook is as it was: no sheet is written, replaced or deleted. Whenever the
  calculation is reached at all, revenue is greater than zero, so the margin is a
  quotient by a positive number.
\<close>

theorem non_positive_revenue_rejected:
  assumes "trim (periodInput w) = p" and "p \<noteq> []"
    and "loadTableValues ''DataSheet'' ''InputData'' (excel w) = Inr rs"
    and "list_ex (isRevenueRow ts p) rs" and "list_ex (isCogsRow ts p) rs"
    and "numLe (sumRevenue ts p rs) (Finite 0)"
  shows "validateAndCalculate ts p (processData ts p rs) =
           Inl (nonPositiveMessage ts (sumRevenue ts p rs) p) \<and>
         runGpmCalculation ts w =
           updateStatus (nonPositiveMessage ts (sumRevenue ts p rs) p) True (afterLoad w) \<and>
         excel (runGpmCalculation ts w) = excel w \<and>
         (\<forall>rs' m. validateAndCalculate ts p (processData ts p rs') = Inr m \<longrightarrow>
            numLt (Finite 0) (mRevenue m) \<and>
            grossProfitMargin m = numDiv (grossProfit m) (mRevenue m))"
proof -
  have calc: "validateAndCalculate ts p (processData ts p rs) =
      Inl (nonPositiveMessage ts (sumRevenue ts p rs) p)"
    using assms(4-6) by (simp add: validateAndCalculate_def processData_fold)
  have run: "runGpmCalculation ts w =
      updateStatus (nonPositiveMessage ts (sumRevenue ts p rs) p) True (afterLoad w)"
    by (simp add: runGpmCalculation_with_table [OF assms(1-3)] calc)
  have unchanged: "excel (runGpmCalculation ts w) = excel w"
    by (simp add: run updateStatus_def afterLoad_def)
  have reach: "numLt (Finite 0) (mRevenue m) \<and>
      grossProfitMargin m = numDiv (grossProfit m) (mRevenue m)"
    if "validateAndCalculate ts p (processData ts p rs') = Inr m" for rs' m
    using that sumRevenue_not_NaN [of ts p rs']
    by (auto simp: validateAndCalculate_def processData_fold Let_def not_numLe_numLt
        split: if_splits)
  from calc run unchanged reach show ?thesis by blast
qed


theorem non_positive_revenue_rejected_witness:
  "status (runGpmCalculation integerToString (sampleWorld ''Q1'' returnsRows)) =
     \<lparr>innerText = ''Error: Revenue (-100) is zero or negative for period Q1. Cannot calculate margin.'',
      color = ''red''\<rparr> \<and>
   excel (runGpmCalculation integerToString (sampleWorld ''Q1'' returnsRows)) =
     excel (sampleWorld ''Q1'' returnsRows)"
proof -
  have t: "trim (periodInput (sampleWorld ''Q1'' returnsRows)) = ''Q1''"
    by (simp add: sampleWorld_input string_eval)
  have ne: "''Q1'' \<noteq> []" by simp
  have le: "numLe (sumRevenue integerToString ''Q1'' returnsRows) (Finite 0)"
    by (simp add: returnsRows_facts)
  from non_positive_revenue_rejected
    [OF t ne sampleWorld_table returnsRows_facts(1) returnsRows_facts(2) le]
  show ?thesis
    by (simp add: returnsRows_facts updateStatus_def afterLoad_def nonPositiveMessage_def showNat.simps)
qed

section \<open>Amounts and account labels\<close>

text \<open>
  Claim C5. The amount of a row is its third cell when that cell is a number, and 0
  otherwise: a missing, empty, textual or boolean amount raises nothing and adds 0 to the
  sum its row feeds. The handler treats every table as the table in which each such cell
  holds the number 0.
\<close>

theorem non_numeric_amount_is_zero:
  "(cellAt r 2 = Num x \<longrightarrow> currentAmount r = Finite x) \<and>
   ((\<forall>y. cellAt r 2 \<noteq> Num y) \<longrightarrow>
      currentAmount r = Finite 0 \<and>
      (isRevenueRow ts p r \<longrightarrow>
         processRow ts p a r = a\<lparr>revenue := numAdd (revenue a) (Finite 0), foundRevenue := True\<rparr>) \<and>
      (isCogsRow ts p r \<longrightarrow>
         processRow ts p a r = a\<lparr>cogs := numAdd (cogs a) (Finite 0), foundCogs := True\<rparr>)) \<and>
   processData ts p rs = processData ts p (map withZeroAmount rs) \<and>
   validateAndCalculate ts p (processData ts p rs) =
     validateAndCalculate ts p (processData ts p (map withZeroAmount rs))"
proof -
  have "currentAmount r = Finite 0" if "\<forall>y. cellAt r 2 \<noteq> Num y"
    using that by (cases "cellAt r 2") (simp_all add: currentAmount_def)
  then show ?thesis
    by (auto simp: processData_withZeroAmount processRow_cases revenue_row_not_cogs_row
        currentAmount_def)
qed

theorem non_numeric_amount_is_zero_witness:
  "currentAmount [Str ''Revenue'', Str ''Q1'', Str ''1,000''] = Finite 0 \<and>
   currentAmount [Str ''COGS'', Str ''Q1''] = Finite 0 \<and>
   map withZeroAmount textAmountRows =
     [[Str ''Revenue'', Str ''Q1'', Num 0],
      [Str ''Revenue'', Str ''Q1'', Num 1000],
      [Str ''COGS'', Str ''Q1'', Num 0],
      [Str ''COGS'', Str ''Q1'', Num 600]] \<and>
   processData integerToString ''Q1'' textAmountRows =
     \<lparr>revenue = Finite 1000, cogs = Finite 600, foundRevenue = True, foundCogs = True\<rparr>"
proof -
  have m: "map withZeroAmount textAmountRows =
     [[Str ''Revenue'', Str ''Q1'', Num 0],
      [Str ''Revenue'', Str ''Q1'', Num 1000],
      [Str ''COGS'', Str ''Q1'', Num 0],
      [Str ''COGS'', Str ''Q1'', Num 600]]"
    by (simp add: textAmountRows_def withZeroAmount_def cellAt_def)
  have a: "\<forall>y. cellAt [Str ''Revenue'', Str ''Q1'', Str ''1,000''] 2 \<noteq> Num (y::real)"
    by (simp add: cellAt_def)
  have b: "\<forall>y. cellAt [Str ''COGS'', Str ''Q1''] 2 \<noteq> Num (y::real)"
    by (simp add: cellAt_def)
  have d: "processData integerToString ''Q1''
     [[Str ''Revenue'', Str ''Q1'', Num 0],
      [Str ''Revenue'', Str ''Q1'', Num 1000],
      [Str ''COGS'', Str ''Q1'', Num 0],
      [Str ''COGS'', Str ''Q1'', Num 600]] =
     \<lparr>revenue = Finite 1000, cogs = Finite 600, foundRevenue = True, foundCogs = True\<rparr>"
    by (simp add: processData_def processRow_def currentPeriod_def currentAccount_def
        currentAmount_def cellAt_def string_eval)
  from non_numeric_amount_is_zero [of "[Str ''Revenue'', Str ''Q1'', Str ''1,000'']"] a
  have r1: "currentAmount [Str ''Revenue'', Str ''Q1'', Str ''1,000''] = Finite 0" by blast
  from non_numeric_amount_is_zero [of "[Str ''COGS'', Str ''Q1'']"] b
  have r2: "currentAmount [Str ''COGS'', Str ''Q1''] = Finite 0" by blast
  from non_numeric_amount_is_zero [of _ _ integerToString "''Q1''" _ textAmountRows]
  have r3: "processData integerToString ''Q1'' textAmountRows =
      processData integerToString ''Q1'' (map withZeroAmount textAmountRows)" by blast
  show ?thesis
    using r1 r2 r3 by (simp add: m d)
qed

text \<open>
  Claim C6. For a row whose period matches the trimmed input period, the account label
  is compared after trimming and lower-casing: the label \<open>revenue\<close> adds the row's amount
  to the revenue sum and leaves the cogs sum and its flag alone, the label \<open>cogs\<close> does
  the converse, and any other label leaves the aggregate as it was. No row matches both
  accounts, and each sum is the sum over the rows matching its account, each row once.
  The labels \<open>Revenue\<close> with a trailing space and \<open>cogs\<close> with a leading space are
  matched.
\<close>

theorem account_normalised_one_bucket:
  "(cellAt r 0 = Str s \<longrightarrow> currentAccount ts r = toLowerCase (trim s)) \<and>
   (currentPeriod ts r = p \<longrightarrow>
      (currentAccount ts r = ''revenue'' \<longrightarrow>
         processRow ts p a r =
           a\<lparr>revenue := numAdd (revenue a) (currentAmount r), foundRevenue := True\<rparr> \<and>
         cogs (processRow ts p a r) = cogs a \<and>
         foundCogs (processRow ts p a r) = foundCogs a) \<and>
      (currentAccount ts r = ''cogs'' \<longrightarrow>
         processRow ts p a r =
           a\<lparr>cogs := numAdd (cogs a) (currentAmount r), foundCogs := True\<rparr> \<and>
         revenue (processRow ts p a r) = revenue a \<and>
         foundRevenue (processRow ts p a r) = foundRevenue a) \<and>
      (currentAccount ts r \<noteq> ''revenue'' \<and> currentAccount ts r \<noteq> ''cogs'' \<longrightarrow>
         processRow ts p a r = a)) \<and>
   \<not> (isRevenueRow ts p r \<and> isCogsRow ts p r) \<and>
   revenue (processData ts p rs) = sumRevenue ts p rs \<and>
   cogs (processData ts p rs) = sumCogs ts p rs \<and>
   toLowerCase (trim ''Revenue '') = ''revenue'' \<and>
   toLowerCase (trim '' cogs'') = ''cogs''"
proof -
  have "currentAccount ts r = toLowerCase (trim s)" if "cellAt r 0 = Str s"
    using that by (simp add: currentAccount_def toLowerCase_def trim_def)
  moreover have "toLowerCase (trim ''Revenue '') = ''revenue''" "toLowerCase (trim '' cogs'') = ''cogs''"
    by (simp_all add: string_eval)
  ultimately show ?thesis
    by (simp add: processRow_def processData_fold isRevenueRow_def isCogsRow_def)
qed

theorem account_normalised_one_bucket_witness:
  "currentAccount integerToString [Str ''Revenue '', Str ''Q1'', Num 100] = ''revenue'' \<and>
   currentAccount integerToString [Str '' cogs'', Str '' Q1'', Num 200] = ''cogs'' \<and>
   processRow integerToString ''Q1''
     \<lparr>revenue = Finite 0, cogs = Finite 0, foundRevenue = False, foundCogs = False\<rparr>
     [Str ''Revenue '', Str ''Q1'', Num 100] =
     \<lparr>revenue = Finite 100, cogs = Finite 0, foundRevenue = True, foundCogs = False\<rparr> \<and>
   processRow integerToString ''Q1''
     \<lparr>revenue = Finite 100, cogs = Finite 0, foundRevenue = True, foundCogs = False\<rparr>
     [Str ''Tax'', Str ''Q1'', Num 7] =
     \<lparr>revenue = Finite 100, cogs = Finite 0, foundRevenue = True, foundCogs = False\<rparr>"
proof -
  let ?a = "\<lparr>revenue = Finite 0, cogs = Finite 0, foundRevenue = False, foundCogs = False\<rparr>"
  let ?b = "\<lparr>revenue = Finite 100, cogs = Finite 0, foundRevenue = True, foundCogs = False\<rparr>"
  let ?r = "[Str ''Revenue '', Str ''Q1'', Num 100] :: row"
  let ?c = "[Str '' cogs'', Str '' Q1'', Num 200] :: row"
  let ?t = "[Str ''Tax'', Str ''Q1'', Num 7] :: row"
  have cells: "cellAt ?r 0 = Str ''Revenue ''" "cellAt ?c 0 = Str '' cogs''"
    by (simp_all add: cellAt_def)
  have periods: "currentPeriod integerToString ?r = ''Q1''" "currentPeriod integerToString ?t = ''Q1''"
    by (simp_all add: currentPeriod_def cellAt_def string_eval)
  have tax: "currentAccount integerToString ?t \<noteq> ''revenue''"
    "currentAccount integerToString ?t \<noteq> ''cogs''"
    by (simp_all add: currentAccount_def cellAt_def string_eval)
  have amount: "currentAmount ?r = Finite 100"
    by (simp add: currentAmount_def cellAt_def)
  note f1 = account_normalised_one_bucket [of ?r "''Revenue ''" integerToString "''Q1''" ?a]
  note f2 = account_normalised_one_bucket [of ?c "'' cogs''" integerToString]
  note f3 = account_normalised_one_bucket [of ?t _ integerToString "''Q1''" ?b]
  from f1 cells(1) have a1: "currentAccount integerToString ?r = ''revenue''" by simp
  from f2 cells(2) have a2: "currentAccount integerToString ?c = ''cogs''" by simp
  from f1 periods(1) a1 have p1: "processRow integerToString ''Q1'' ?a ?r =
      ?a\<lparr>revenue := numAdd (revenue ?a) (currentAmount ?r), foundRevenue := True\<rparr>"
    by blast
  from f3 periods(2) tax have p3: "processRow integerToString ''Q1'' ?b ?t = ?b"
    by blast
  show ?thesis
    using a1 a2 p1 p3 by (simp add: amount)
qed

section \<open>Revenue rows with amount zero\<close>

text \<open>
  Claim C10, as amended. The found flags record the presence of a matching row,
  whatever its amount. If at least one row matches revenue and every such row has the
  amount 0 (a zero cell or a cell that is not a number), the summed revenue is 0 and the
  handler never takes the no-revenue path: it reports the non-positive revenue when a
  cogs row matches as well, and the missing cogs otherwise.
\<close>

theorem zero_amount_revenue_is_found:
  assumes "list_ex (isRevenueRow ts p) rs"
    and "list_all (\<lambda>r. currentAmount r = Finite 0) (filter (isRevenueRow ts p) rs)"
  shows "foundRevenue (processData ts p rs) \<and>
         foundCogs (processData ts p rs) = list_ex (isCogsRow ts p) rs \<and>
         sumRevenue ts p rs = Finite 0 \<and>
         validateAndCalculate ts p (processData ts p rs) =
           (if list_ex (isCogsRow ts p) rs then Inl (nonPositiveMessage ts (Finite 0) p)
            else Inl (noCogsMessage p)) \<and>
         validateAndCalculate ts p (processData ts p rs) \<noteq> Inl (noRevenueMessage p)"
proof -
  have "list_all (\<lambda>x. x = Finite 0) (map currentAmount (filter (isRevenueRow ts p) rs))"
    using assms(2) by (simp add: list_all_iff)
  then have zero: "sumRevenue ts p rs = Finite 0"
    unfolding sumRevenue_def by (rule foldl_numAdd_zeros)
  show ?thesis
    using assms(1)
    by (simp add: validateAndCalculate_def processData_fold zero noRevenueMessage_def
        noCogsMessage_def nonPositiveMessage_def)
qed

theorem zero_amount_revenue_is_found_witness:
  "validateAndCalculate integerToString ''Q1''
     (processData integerToString ''Q1''
        [[Str ''Revenue'', Str ''Q1'', Num 0], [Str ''Revenue'', Str ''Q1'', Str ''none''],
         [Str ''COGS'', Str ''Q1'', Num 5]]) =
     Inl ''Error: Revenue (0) is zero or negative for period Q1. Cannot calculate margin.'' \<and>
   validateAndCalculate integerToString ''Q1'' (processData integerToString ''Q1'' zeroRevenueRows) =
     Inl ''Error: No 'COGS' found for period Q1.''"
proof -
  let ?rs = "[[Str ''Revenue'', Str ''Q1'', Num 0], [Str ''Revenue'', Str ''Q1'', Str ''none''],
         [Str ''COGS'', Str ''Q1'', Num 5]] :: row list"
  have a: "list_ex (isRevenueRow integerToString ''Q1'') ?rs"
    "list_all (\<lambda>r. currentAmount r = Finite 0) (filter (isRevenueRow integerToString ''Q1'') ?rs)"
    "list_ex (isCogsRow integerToString ''Q1'') ?rs"
    by (simp_all add: row_eval string_eval)
  have b: "list_ex (isRevenueRow integerToString ''Q1'') zeroRevenueRows"
    "list_all (\<lambda>r. currentAmount r = Finite 0)
       (filter (isRevenueRow integerToString ''Q1'') zeroRevenueRows)"
    "\<not> list_ex (isCogsRow integerToString ''Q1'') zeroRevenueRows"
    by (simp_all add: zeroRevenueRows_def row_eval string_eval)
  show ?thesis
    using zero_amount_revenue_is_found [OF a(1,2)] zero_amount_revenue_is_found [OF b(1,2)] a(3) b(3)
    by (simp add: nonPositiveMessage_def noCogsMessage_def showNat.simps)
qed

text \<open>
  The claim as first stated promises the non-positive-revenue report for every table
  whose matching revenue rows all have amount 0. With one such revenue row and no cogs
  row the handler reports the missing cogs instead: that check comes before the check of
  the revenue's sign.
\<close>

theorem zero_revenue_without_cogs:
  "list_ex (isRevenueRow integerToString ''Q1'') zeroRevenueRows \<and>
   list_all (\<lambda>r. currentAmount r = Finite 0)
     (filter (isRevenueRow integerToString ''Q1'') zeroRevenueRows) \<and>
   status (runGpmCalculation integerToString (sampleWorld ''Q1'' zeroRevenueRows)) =
     \<lparr>innerText = ''Error: No 'COGS' found for period Q1.'', color = ''red''\<rparr> \<and>
   innerText (status (runGpmCalculation integerToString (sampleWorld ''Q1'' zeroRevenueRows))) \<noteq>
     nonPositiveMessage integerToString
       (sumRevenue integerToString ''Q1'' zeroRevenueRows) ''Q1''"
proof -
  have t: "trim (periodInput (sampleWorld ''Q1'' zeroRevenueRows)) = ''Q1''"
    by (simp add: sampleWorld_input string_eval)
  have ne: "''Q1'' \<noteq> []" by simp
  have rows: "list_ex (isRevenueRow integerToString ''Q1'') zeroRevenueRows"
    "\<not> list_ex (isCogsRow integerToString ''Q1'') zeroRevenueRows"
    "list_all (\<lambda>r. currentAmount r = Finite 0)
       (filter (isRevenueRow integerToString ''Q1'') zeroRevenueRows)"
    by (simp_all add: zeroRevenueRows_def row_eval string_eval)
  have "runGpmCalculation integerToString (sampleWorld ''Q1'' zeroRevenueRows) =
      updateStatus (noCogsMessage ''Q1'') True (afterLoad (sampleWorld ''Q1'' zeroRevenueRows))"
    using rows(1,2)
    by (simp add: runGpmCalculation_with_table [OF t ne sampleWorld_table]
        validateAndCalculate_def processData_fold)
  then show ?thesis
    using rows(1,3)
    by (simp add: updateStatus_def noCogsMessage_def nonPositiveMessage_def)
qed

section \<open>Order of the rows\<close>




section \<open>The output sheet\<close>

text \<open>
  Claim C8. Whenever the handler reports completion with the results on a sheet \<open>n\<close>,
  for the trimmed period \<open>p\<close> and the table \<open>rs\<close>: \<open>n\<close> is \<open>GPM_\<close> followed by \<open>p\<close>;
  the workbook has exactly one sheet of this name, it is the active sheet, and the only
  values set on it are those of the range A1:B7, seven rows of two cells: the period label
  row, the blank row, the header row, and the rows of revenue, cogs, gross profit and
  gross profit margin.
\<close>

theorem output_block_written:
  assumes "innerText (status (runGpmCalculation ts w)) = completeMessage n"
    and "loadTableValues ''DataSheet'' ''InputData'' (excel w) = Inr rs"
    and "p = trim (periodInput w)"
  shows "n = ''GPM_'' @ p \<and>
    map_option wsValues (findSheet n (excel (runGpmCalculation ts w))) =
      Some [(''A1:B7'',
             [[Str ''Period:'', Str p],
              [Null, Null],
              [Str ''Metric'', Str ''Value''],
              [Str ''Revenue'', Num (sumRevenue ts p rs)],
              [Str ''COGS'', Num (sumCogs ts p rs)],
              [Str ''Gross Profit'', Num (numSub (sumRevenue ts p rs) (sumCogs ts p rs))],
              [Str ''Gross Profit Margin'',
               Num (numDiv (numSub (sumRevenue ts p rs) (sumCogs ts p rs))
                      (sumRevenue ts p rs))]])] \<and>
    length (filter (\<lambda>s. wsName s = n) (worksheets (excel (runGpmCalculation ts w)))) = 1 \<and>
    activeSheet (excel (runGpmCalculation ts w)) = n"
proof -
  from assms(1) obtain rs' m where ne: "trim (periodInput w) \<noteq> []"
    and tbl: "loadTableValues ''DataSheet'' ''InputData'' (excel w) = Inr rs'"
    and calc: "validateAndCalculate ts (trim (periodInput w))
        (processData ts (trim (periodInput w)) rs') = Inr m"
    and valid: "validSheetName (outputSheetName (trim (periodInput w)))"
    by (rule completion_reported)
  from tbl assms(2) have rs: "rs' = rs" by simp
  note run = runGpmCalculation_completed [OF refl ne tbl calc valid]
  have "completeMessage n = completeMessage (outputSheetName (trim (periodInput w)))"
    using assms(1) by (simp add: run)
  then have n: "n = outputSheetName p" unfolding assms(3) by (rule completeMessage_inject)
  have m: "outputData p m =
             [[Str ''Period:'', Str p],
              [Null, Null],
              [Str ''Metric'', Str ''Value''],
              [Str ''Revenue'', Num (sumRevenue ts p rs)],
              [Str ''COGS'', Num (sumCogs ts p rs)],
              [Str ''Gross Profit'', Num (numSub (sumRevenue ts p rs) (sumCogs ts p rs))],
              [Str ''Gross Profit Margin'',
               Num (numDiv (numSub (sumRevenue ts p rs) (sumCogs ts p rs))
                      (sumRevenue ts p rs))]]"
    using validate_Inr [OF calc] by (simp add: outputData_def rs assms(3))
  have ex: "excel (runGpmCalculation ts w) =
      \<lparr>worksheets = otherSheets (outputSheetName p) (excel w) @ [outputSheet p m],
       activeSheet = outputSheetName p\<rparr>"
    by (simp add: run assms(3))
  have c1: "n = ''GPM_'' @ p" by (simp add: n outputSheetName_def)
  have "map_option wsValues (findSheet n (excel (runGpmCalculation ts w))) =
      Some [(''A1:B7'', outputData p m)]"
    unfolding ex n findSheet_output by (simp add: outputSheet_def)
  then have c2: "map_option wsValues (findSheet n (excel (runGpmCalculation ts w))) =
      Some [(''A1:B7'',
             [[Str ''Period:'', Str p],
              [Null, Null],
              [Str ''Metric'', Str ''Value''],
              [Str ''Revenue'', Num (sumRevenue ts p rs)],
              [Str ''COGS'', Num (sumCogs ts p rs)],
              [Str ''Gross Profit'', Num (numSub (sumRevenue ts p rs) (sumCogs ts p rs))],
              [Str ''Gross Profit Margin'',
               Num (numDiv (numSub (sumRevenue ts p rs) (sumCogs ts p rs))
                      (sumRevenue ts p rs))]])]"
    by (simp only: m)
  have c3: "length (filter (\<lambda>s. wsName s = n) (worksheets (excel (runGpmCalculation ts w)))) = 1"
    unfolding ex n using one_output_sheet [of p "excel w" m] by simp
  have c4: "activeSheet (excel (runGpmCalculation ts w)) = n"
    unfolding ex n by simp
  from c1 c2 c3 c4 show ?thesis by (intro conjI)
qed

theorem output_block_written_witness:
  "innerText (status (runGpmCalculation integerToString (sampleWorld '' Q1 '' quarterRows))) =
     completeMessage ''GPM_Q1'' \<and>
   map_option wsValues
     (findSheet ''GPM_Q1''
        (excel (runGpmCalculation integerToString (sampleWorld '' Q1 '' quarterRows)))) =
     Some [(''A1:B7'',
            [[Str ''Period:'', Str ''Q1''],
             [Null, Null],
             [Str ''Metric'', Str ''Value''],
             [Str ''Revenue'', Num (Finite 1000)],
             [Str ''COGS'', Num (Finite 600)],
             [Str ''Gross Profit'', Num (Finite 400)],
             [Str ''Gross Profit Margin'', Num (Finite (3602879701896397 / 9007199254740992))]])]"
proof -
  have gp: "numSub (Finite 1000) (Finite 600) = Finite 400"
    by (simp add: numSub_def)
  have gpm: "numDiv (Finite 400) (Finite 1000) = Finite (3602879701896397 / 9007199254740992)"
    by (simp add: roundDouble_two_fifths)
  from output_block_written [OF sample_completed sampleWorld_table sample_trim [symmetric]]
  show ?thesis
    by (simp add: sample_completed quarterRows_Q1 numSub_def roundDouble_two_fifths)
qed

text \<open>
  Claim C9. When the handler has reported completion and is invoked again with the
  period field and the table unchanged, it leaves the workbook exactly as the first
  invocation left it, with the same status line: the block on the output sheet is the
  same, the workbook still has one sheet of that name, and the requests of the second
  invocation delete the sheet of the first and add a new one.
\<close>

theorem handler_idempotent:
  assumes "innerText (status (runGpmCalculation ts w)) = completeMessage n"
  shows "excel (runGpmCalculation ts (runGpmCalculation ts w)) = excel (runGpmCalculation ts w) \<and>
    status (runGpmCalculation ts (runGpmCalculation ts w)) = status (runGpmCalculation ts w) \<and>
    map_option wsValues (findSheet n (excel (runGpmCalculation ts (runGpmCalculation ts w)))) =
      map_option wsValues (findSheet n (excel (runGpmCalculation ts w))) \<and>
    length (filter (\<lambda>s. wsName s = n)
      (worksheets (excel (runGpmCalculation ts (runGpmCalculation ts w))))) = 1 \<and>
    requests (runGpmCalculation ts (runGpmCalculation ts w)) =
      requests (runGpmCalculation ts w) @
      [LoadTableValues ''DataSheet'' ''InputData'', LoadSheetName n, DeleteSheet n] @
      outputRequests n"
proof -
  define p where "p = trim (periodInput w)"
  from assms obtain rs m where ne: "p \<noteq> []"
    and tbl: "loadTableValues ''DataSheet'' ''InputData'' (excel w) = Inr rs"
    and calc: "validateAndCalculate ts p (processData ts p rs) = Inr m"
    and valid: "validSheetName (outputSheetName p)"
    unfolding p_def by (rule completion_reported)
  define w1 where "w1 = runGpmCalculation ts w"
  have run1: "w1 =
    w\<lparr>requests :=
        requests w @
        [LoadTableValues ''DataSheet'' ''InputData'', LoadSheetName (outputSheetName p)] @
        (if findSheet (outputSheetName p) (excel w) \<noteq> None
         then [DeleteSheet (outputSheetName p)] else []) @
        outputRequests (outputSheetName p),
      excel :=
        \<lparr>worksheets = otherSheets (outputSheetName p) (excel w) @ [outputSheet p m],
         activeSheet = outputSheetName p\<rparr>,
      status := \<lparr>innerText = completeMessage (outputSheetName p), color = ''#555''\<rparr>\<rparr>"
    unfolding w1_def by (rule runGpmCalculation_completed [OF p_def [symmetric] ne tbl calc valid])
  have "completeMessage n = completeMessage (outputSheetName p)"
    using assms by (simp add: w1_def [symmetric] run1)
  then have n: "n = outputSheetName p" by (rule completeMessage_inject)
  have e1: "excel w1 =
      \<lparr>worksheets = otherSheets n (excel w) @ [outputSheet p m], activeSheet = n\<rparr>"
    by (simp add: run1 n)
  have p1: "trim (periodInput w1) = p" by (simp add: run1 p_def)
  have tbl1: "loadTableValues ''DataSheet'' ''InputData'' (excel w1) = Inr rs"
    unfolding e1 n loadTableValues_after_output by (rule tbl)
  have found: "findSheet n (excel w1) \<noteq> None"
    unfolding e1 n findSheet_output by simp
  have others: "otherSheets n (excel w1) = otherSheets n (excel w)"
    unfolding e1 n by (rule otherSheets_after_output)
  have run2: "runGpmCalculation ts w1 =
    w1\<lparr>requests :=
        requests w1 @
        [LoadTableValues ''DataSheet'' ''InputData'', LoadSheetName n, DeleteSheet n] @
        outputRequests n,
      excel := \<lparr>worksheets = otherSheets n (excel w) @ [outputSheet p m], activeSheet = n\<rparr>,
      status := \<lparr>innerText = completeMessage n, color = ''#555''\<rparr>\<rparr>"
    using found
    by (simp add: runGpmCalculation_completed [OF p1 ne tbl1 calc valid] n [symmetric] others)
  have c1: "excel (runGpmCalculation ts w1) = excel w1"
    by (simp add: run2 e1)
  have c2: "status (runGpmCalculation ts w1) = status w1"
    by (simp add: run2) (simp add: run1 n)
  have c3: "map_option wsValues (findSheet n (excel (runGpmCalculation ts w1))) =
      map_option wsValues (findSheet n (excel w1))"
    by (simp only: c1)
  have c4: "length (filter (\<lambda>s. wsName s = n) (worksheets (excel (runGpmCalculation ts w1)))) = 1"
    unfolding c1 e1 n using one_output_sheet [of p "excel w" m] by simp
  have c5: "requests (runGpmCalculation ts w1) =
      requests w1 @
      [LoadTableValues ''DataSheet'' ''InputData'', LoadSheetName n, DeleteSheet n] @
      outputRequests n"
    by (simp add: run2)
  from c1 c2 c3 c4 c5 show ?thesis unfolding w1_def by (intro conjI)
qed

theorem handler_idempotent_witness:
  "innerText (status (runGpmCalculation integerToString (sampleWorld '' Q1 '' quarterRows))) =
     completeMessage ''GPM_Q1'' \<and>
   excel (runGpmCalculation integerToString
            (runGpmCalculation integerToString (sampleWorld '' Q1 '' quarterRows))) =
     excel (runGpmCalculation integerToString (sampleWorld '' Q1 '' quarterRows)) \<and>
   length (filter (\<lambda>s. wsName s = ''GPM_Q1'')
     (worksheets (excel (runGpmCalculation integerToString
        (runGpmCalculation integerToString (sampleWorld '' Q1 '' quarterRows)))))) = 1"
  using handler_idempotent [OF sample_completed] sample_completed by blast

end
